theory Spec2Isabelle
  imports Main
begin

section \<open>ChessLock: the session integrity monitor of \<^verbatim>\<open>src/main.js\<close>\<close>

text \<open>
  The development embeds the environment probes (\<^verbatim>\<open>checkZoomCamera\<close>, \<^verbatim>\<open>checkBluetooth\<close>,
  \<^verbatim>\<open>getUsbDeviceCount\<close>, \<^verbatim>\<open>checkUsbDevices\<close>), the three evaluation sites and the
  warning and termination handlers of \<^verbatim>\<open>src/main.js\<close>.

  Conventions of the embedding:
  \<^item> a JavaScript string is a \<open>string\<close>; \<^verbatim>\<open>trim\<close> and \<^verbatim>\<open>toLowerCase\<close> are modelled on
    ASCII (white space is TAB, LF, VT, FF, CR and SPACE; only \<open>A\<close> to \<open>Z\<close> change case);
  \<^item> a rejected promise or a thrown exception is the value \<open>Inl e\<close>, a result is \<open>Inr r\<close>;
    \<^verbatim>\<open>try { ... } catch { ... }\<close> is \<open>try_catch\<close>;
  \<^item> the operating system is a parameter: the number of displays and, for every shell
    command the probes run, either its standard output or its failure.
\<close>

subsection \<open>JavaScript strings\<close>

definition upper_letters :: string where
  "upper_letters = ''ABCDEFGHIJKLMNOPQRSTUVWXYZ''"

definition lower_letters :: string where
  "lower_letters = ''abcdefghijklmnopqrstuvwxyz''"

text \<open>The character class \<^verbatim>\<open>[A-Za-z]\<close>.\<close>

definition is_letter :: "char \<Rightarrow> bool" where
  "is_letter c = (c \<in> set upper_letters \<or> c \<in> set lower_letters)"

definition lower_char :: "char \<Rightarrow> char" where
  "lower_char c = (case map_of (zip upper_letters lower_letters) c of Some l \<Rightarrow> l | None \<Rightarrow> c)"

text \<open>\<^verbatim>\<open>s.toLowerCase()\<close>\<close>

definition toLowerCase :: "string \<Rightarrow> string" where
  "toLowerCase s = map lower_char s"

definition is_space :: "char \<Rightarrow> bool" where
  "is_space c = (c \<in> set [CHR 0x09, CHR 0x0A, CHR 0x0B, CHR 0x0C, CHR 0x0D, CHR '' ''])"

text \<open>\<^verbatim>\<open>s.trim()\<close>\<close>

definition trim :: "string \<Rightarrow> string" where
  "trim s = rev (dropWhile is_space (rev (dropWhile is_space s)))"

text \<open>\<^verbatim>\<open>s.startsWith(p)\<close>, used for the anchored regular expressions.\<close>

fun startsWith :: "string \<Rightarrow> string \<Rightarrow> bool" where
  "startsWith s [] = True"
| "startsWith [] (p # ps) = False"
| "startsWith (c # cs) (p # ps) = (c = p \<and> startsWith cs ps)"

text \<open>\<^verbatim>\<open>s.includes(p)\<close>: \<open>p\<close> occurs in \<open>s\<close> as a contiguous substring.\<close>

fun includes_str :: "string \<Rightarrow> string \<Rightarrow> bool" where
  "includes_str [] p = (p = [])"
| "includes_str (c # cs) p = (startsWith (c # cs) p \<or> includes_str cs p)"

text \<open>\<^verbatim>\<open>s.split(sep)\<close> for a one-character separator: never the empty list.\<close>

fun split_str :: "string \<Rightarrow> char \<Rightarrow> string list" where
  "split_str [] sep = [[]]"
| "split_str (c # cs) sep =
     (if c = sep then [] # split_str cs sep
      else (case split_str cs sep of [] \<Rightarrow> [[c]] | l # ls \<Rightarrow> (c # l) # ls))"

subsection \<open>The operating system as seen by the probes\<close>

datatype error = CommandFailed

text \<open>The shell commands passed to \<^verbatim>\<open>execAsync\<close>, in the order of the source.\<close>

datatype command =
    PgrepZoom           \<comment> \<open>\<^verbatim>\<open>pgrep -x zoom.us || pgrep -f "zoom.us" || echo ""\<close>\<close>
  | IoregCamera         \<comment> \<open>\<^verbatim>\<open>ioreg -l | grep -E "CameraStreaming|CameraActive" | grep -i "Yes" || echo ""\<close>\<close>
  | PgrepShare          \<comment> \<open>\<^verbatim>\<open>pgrep -f "zoomshare\|CptHost" || echo ""\<close>\<close>
  | LsofZoom            \<comment> \<open>\<^verbatim>\<open>lsof -c zoom.us 2>/dev/null | grep -i "windowserver\|skylight" || echo ""\<close>\<close>
  | ProfilerBluetooth   \<comment> \<open>\<^verbatim>\<open>system_profiler SPBluetoothDataType 2>/dev/null | grep -iE "(State|Bluetooth Power):" | head -1\<close>\<close>
  | ProfilerUsb         \<comment> \<open>\<^verbatim>\<open>system_profiler SPUSBDataType 2>/dev/null\<close>\<close>

record os =
  displays :: nat                           \<comment> \<open>\<^verbatim>\<open>screen.getAllDisplays().length\<close>\<close>
  execAsync :: "command \<Rightarrow> error + string"   \<comment> \<open>the \<^verbatim>\<open>stdout\<close> of a command, or its rejection\<close>

text \<open>Sequencing of calls that may throw, and \<^verbatim>\<open>try\<close>/\<^verbatim>\<open>catch\<close>.\<close>

definition and_then :: "error + 'a \<Rightarrow> ('a \<Rightarrow> error + 'b) \<Rightarrow> error + 'b" where
  "and_then m f = (case m of Inl e \<Rightarrow> Inl e | Inr x \<Rightarrow> f x)"

definition try_catch :: "error + 'a \<Rightarrow> (error \<Rightarrow> error + 'a) \<Rightarrow> error + 'a" where
  "try_catch body handler = (case body of Inl e \<Rightarrow> handler e | Inr x \<Rightarrow> Inr x)"

subsection \<open>Environment probes\<close>

record zoom_result =
  zoomRunning :: bool
  cameraInUse :: bool
  screenSharing :: bool

record bluetooth_result =
  bluetoothEnabled :: bool

record usb_result =
  hasUsbDevices :: bool
  count :: int

text \<open>\<^verbatim>\<open>checkZoomCamera\<close> (lines 24 to 70).\<close>

definition checkZoomCamera :: "os \<Rightarrow> error + zoom_result" where
  "checkZoomCamera sys =
     try_catch
       (and_then (execAsync sys PgrepZoom) (\<lambda>psOutput.
          let zoomRunning = (length (trim psOutput) > 0) in
          if \<not> zoomRunning
          then Inr \<lparr>zoomRunning = False, cameraInUse = False, screenSharing = False\<rparr>
          else
            and_then
              (try_catch
                 (and_then (execAsync sys IoregCamera) (\<lambda>ioregOutput.
                    Inr (length (trim ioregOutput) > 0)))
                 (\<lambda>_. Inr False)) (\<lambda>cameraInUse.
            and_then
              (try_catch
                 (and_then (execAsync sys PgrepShare) (\<lambda>shareOutput.
                    if length (trim shareOutput) > 0 then Inr True
                    else and_then (execAsync sys LsofZoom) (\<lambda>lsofOutput.
                           Inr (length (trim lsofOutput) > 0))))
                 (\<lambda>_. Inr False)) (\<lambda>screenSharing.
            Inr \<lparr>zoomRunning = True, cameraInUse = cameraInUse,
                 screenSharing = screenSharing\<rparr>))))
       (\<lambda>err. Inr \<lparr>zoomRunning = False, cameraInUse = False, screenSharing = False\<rparr>)"

text \<open>\<^verbatim>\<open>checkBluetooth\<close> (lines 86 to 101).\<close>

definition checkBluetooth :: "os \<Rightarrow> error + bluetooth_result" where
  "checkBluetooth sys =
     try_catch
       (and_then (execAsync sys ProfilerBluetooth) (\<lambda>stdout.
          let isOn = includes_str (toLowerCase stdout) '': on'' in
          Inr \<lparr>bluetoothEnabled = isOn\<rparr>))
       (\<lambda>err. Inr \<lparr>bluetoothEnabled = False\<rparr>)"

text \<open>\<^verbatim>\<open>getUsbDeviceCount\<close> (lines 104 to 157).\<close>

definition internalPatterns :: "string list" where
  "internalPatterns =
     [''hub'', ''internal'', ''built-in'', ''bluetooth'', ''apple'',
      ''host controller'', ''root hub'', ''usb bus'', ''usb 3'', ''usb 2'', ''usb3'', ''usb2'',
      ''bus'', ''touch bar'', ''ambient light sensor'', ''facetime'', ''headset'',
      ''card reader'', ''trackpad'', ''keyboard'', ''ibridge'', ''sensor'', ''controller'']"

text \<open>
  The test of line 126:
  \<^verbatim>\<open>/^    [A-Za-z]/.test(line) && !/^      /.test(line)\<close>
\<close>

definition is_device_name_line :: "string \<Rightarrow> bool" where
  "is_device_name_line line =
     ((case drop 4 line of [] \<Rightarrow> False | c # _ \<Rightarrow> startsWith line ''    '' \<and> is_letter c)
      \<and> \<not> startsWith line ''      '')"

text \<open>
  Lines 132 to 144: \<^verbatim>\<open>currentDevice = line.trim().toLowerCase()\<close> and
  \<^verbatim>\<open>!internalPatterns.some(pattern => currentDevice.includes(pattern))\<close>.
\<close>

definition is_external_name :: "string \<Rightarrow> bool" where
  "is_external_name line =
     (let currentDevice = toLowerCase (trim line)
      in \<not> list_ex (\<lambda>pattern. includes_str currentDevice pattern) internalPatterns)"

text \<open>
  The \<^verbatim>\<open>for (const line of lines)\<close> loop of lines 124 to 146, on the two variables that
  survive an iteration, \<^verbatim>\<open>externalDeviceCount\<close> and \<^verbatim>\<open>isExternalDevice\<close>.
\<close>

fun usb_loop :: "string list \<Rightarrow> int \<Rightarrow> bool \<Rightarrow> int \<times> bool" where
  "usb_loop [] externalDeviceCount isExternalDevice = (externalDeviceCount, isExternalDevice)"
| "usb_loop (line # lines) externalDeviceCount isExternalDevice =
     (if is_device_name_line line
      then usb_loop lines
             (if isExternalDevice then externalDeviceCount + 1 else externalDeviceCount)
             (is_external_name line)
      else usb_loop lines externalDeviceCount isExternalDevice)"

text \<open>Lines 119 to 153: the loop from \<open>(0, false)\<close>, then the check of the last device.\<close>

definition count_external :: "string list \<Rightarrow> int" where
  "count_external lines =
     (case usb_loop lines 0 False of
        (externalDeviceCount, isExternalDevice) \<Rightarrow>
          if isExternalDevice then externalDeviceCount + 1 else externalDeviceCount)"

definition getUsbDeviceCount :: "os \<Rightarrow> error + int" where
  "getUsbDeviceCount sys =
     try_catch
       (and_then (execAsync sys ProfilerUsb) (\<lambda>stdout.
          if stdout = [] \<or> trim stdout = [] \<or> includes_str stdout ''No USB''
          then Inr 0
          else Inr (count_external (split_str stdout (CHR 0x0A)))))
       (\<lambda>err. Inr 0)"

text \<open>\<^verbatim>\<open>checkUsbDevices\<close> (lines 160 to 166).\<close>

definition checkUsbDevices :: "os \<Rightarrow> error + usb_result" where
  "checkUsbDevices sys =
     and_then (getUsbDeviceCount sys) (\<lambda>n. Inr \<lparr>hasUsbDevices = (n > 0), count = n\<rparr>)"

subsection \<open>Probe calls of a handler, in program order\<close>

text \<open>
  A handler calls its probes one statement after the other. The log records, in program
  order: \<open>Called p\<close>, a synchronous probe was called and has returned; \<open>Issued p\<close>, an
  asynchronous probe was called and its promise is pending; \<open>Awaited p\<close>, the handler was
  suspended on the promise of \<open>p\<close> and has resumed with its result; \<open>Evaluated\<close>, the handler
  has computed the four issue flags from the results.
\<close>

datatype probe = Display | Zoom | Bluetooth | Usb

datatype action = Called probe | Issued probe | Awaited probe | Evaluated

type_synonym 'a async = "action list \<times> (error + 'a)"

text \<open>\<^verbatim>\<open>const r = f()\<close> for a synchronous probe \<open>f\<close>.\<close>

definition call_sync :: "probe \<Rightarrow> 'a \<Rightarrow> 'a async" where
  "call_sync p v = ([Called p], Inr v)"

text \<open>\<^verbatim>\<open>const r = await f()\<close>: the call is issued and the handler is suspended until it settles.\<close>

definition await :: "probe \<Rightarrow> error + 'a \<Rightarrow> 'a async" where
  "await p r = ([Issued p, Awaited p], r)"

text \<open>The next statement runs after the previous one; a rejection ends the handler.\<close>

definition then_async :: "'a async \<Rightarrow> ('a \<Rightarrow> 'b async) \<Rightarrow> 'b async" where
  "then_async m f =
     (case m of
        (tr, Inl e) \<Rightarrow> (tr, Inl e)
      | (tr, Inr x) \<Rightarrow> (case f x of (tr', r) \<Rightarrow> (tr @ tr', r)))"

definition done_async :: "'a \<Rightarrow> 'a async" where
  "done_async x = ([], Inr x)"

type_synonym probe_results = "nat \<times> zoom_result \<times> bluetooth_result \<times> usb_result"

text \<open>Lines 404 to 407, in the monitor callback.\<close>

definition monitor_probes :: "os \<Rightarrow> probe_results async" where
  "monitor_probes sys =
     then_async (call_sync Display (displays sys)) (\<lambda>displayResult.
     then_async (await Zoom (checkZoomCamera sys)) (\<lambda>zoomResult.
     then_async (await Bluetooth (checkBluetooth sys)) (\<lambda>bluetoothResult.
     then_async (await Usb (checkUsbDevices sys)) (\<lambda>usbResult.
     done_async (displayResult, zoomResult, bluetoothResult, usbResult)))))"

text \<open>Lines 488 to 491, in the resolve callback.\<close>

definition resolve_probes :: "os \<Rightarrow> probe_results async" where
  "resolve_probes sys =
     then_async (call_sync Display (displays sys)) (\<lambda>displayResult.
     then_async (await Zoom (checkZoomCamera sys)) (\<lambda>zoomResult.
     then_async (await Bluetooth (checkBluetooth sys)) (\<lambda>bluetoothResult.
     then_async (await Usb (checkUsbDevices sys)) (\<lambda>usbResult.
     done_async (displayResult, zoomResult, bluetoothResult, usbResult)))))"

text \<open>Lines 312 to 315, in the \<^verbatim>\<open>warning-timer-expired\<close> handler.\<close>

definition expired_probes :: "os \<Rightarrow> probe_results async" where
  "expired_probes sys =
     then_async (call_sync Display (displays sys)) (\<lambda>displayResult.
     then_async (await Zoom (checkZoomCamera sys)) (\<lambda>zoomResult.
     then_async (await Bluetooth (checkBluetooth sys)) (\<lambda>bluetoothResult.
     then_async (await Usb (checkUsbDevices sys)) (\<lambda>usbResult.
     done_async (displayResult, zoomResult, bluetoothResult, usbResult)))))"

subsection \<open>The three evaluation sites\<close>

record issues =
  hasDisplayIssue :: bool
  hasCameraIssue :: bool
  hasBluetoothIssue :: bool
  hasUsbIssue :: bool

text \<open>Lines 409 to 412.\<close>

definition monitor_issues ::
  "nat \<Rightarrow> zoom_result \<Rightarrow> bluetooth_result \<Rightarrow> usb_result \<Rightarrow> issues" where
  "monitor_issues displayResult zoomResult bluetoothResult usbResult =
     \<lparr>hasDisplayIssue = (displayResult > 1),
      hasCameraIssue = (\<not> zoomRunning zoomResult \<or> \<not> cameraInUse zoomResult),
      hasBluetoothIssue = bluetoothEnabled bluetoothResult,
      hasUsbIssue = hasUsbDevices usbResult\<rparr>"

text \<open>Lines 493 to 496.\<close>

definition resolve_issues ::
  "nat \<Rightarrow> zoom_result \<Rightarrow> bluetooth_result \<Rightarrow> usb_result \<Rightarrow> issues" where
  "resolve_issues displayResult zoomResult bluetoothResult usbResult =
     \<lparr>hasDisplayIssue = (displayResult > 1),
      hasCameraIssue = (\<not> zoomRunning zoomResult \<or> \<not> cameraInUse zoomResult),
      hasBluetoothIssue = bluetoothEnabled bluetoothResult,
      hasUsbIssue = hasUsbDevices usbResult\<rparr>"

text \<open>Lines 317 to 320.\<close>

definition expired_issues ::
  "nat \<Rightarrow> zoom_result \<Rightarrow> bluetooth_result \<Rightarrow> usb_result \<Rightarrow> issues" where
  "expired_issues displayResult zoomResult bluetoothResult usbResult =
     \<lparr>hasDisplayIssue = (displayResult > 1),
      hasCameraIssue = (\<not> zoomRunning zoomResult \<or> \<not> cameraInUse zoomResult),
      hasBluetoothIssue = bluetoothEnabled bluetoothResult,
      hasUsbIssue = hasUsbDevices usbResult\<rparr>"

text \<open>
  Lines 414 to 426 of the monitor callback: \<open>None\<close> when the condition of line 414 is
  false, otherwise the \<^verbatim>\<open>issueMessage\<close> passed to \<^verbatim>\<open>showWarningWindow\<close>.
\<close>

definition issueMessage ::
  "nat \<Rightarrow> zoom_result \<Rightarrow> bluetooth_result \<Rightarrow> usb_result \<Rightarrow> string option" where
  "issueMessage displayResult zoomResult bluetoothResult usbResult =
     (let i = monitor_issues displayResult zoomResult bluetoothResult usbResult in
      if hasDisplayIssue i \<or> hasCameraIssue i \<or> hasBluetoothIssue i \<or> hasUsbIssue i
      then Some
        (if hasDisplayIssue i then ''External display detected''
         else if \<not> zoomRunning zoomResult then ''Zoom is not running''
         else if \<not> cameraInUse zoomResult then ''Camera has been turned off''
         else if hasBluetoothIssue i then ''Bluetooth must be disabled''
         else if hasUsbIssue i then ''Disconnect all USB devices''
         else [])
      else None)"

text \<open>The condition of line 498 of the resolve callback.\<close>

definition resolve_clear ::
  "nat \<Rightarrow> zoom_result \<Rightarrow> bluetooth_result \<Rightarrow> usb_result \<Rightarrow> bool" where
  "resolve_clear displayResult zoomResult bluetoothResult usbResult =
     (let i = resolve_issues displayResult zoomResult bluetoothResult usbResult in
      \<not> hasDisplayIssue i \<and> \<not> hasCameraIssue i \<and> \<not> hasBluetoothIssue i \<and> \<not> hasUsbIssue i)"

text \<open>The condition of line 322 of the \<^verbatim>\<open>warning-timer-expired\<close> handler.\<close>

definition expired_violation ::
  "nat \<Rightarrow> zoom_result \<Rightarrow> bluetooth_result \<Rightarrow> usb_result \<Rightarrow> bool" where
  "expired_violation displayResult zoomResult bluetoothResult usbResult =
     (let i = expired_issues displayResult zoomResult bluetoothResult usbResult in
      hasDisplayIssue i \<or> hasCameraIssue i \<or> hasBluetoothIssue i \<or> hasUsbIssue i)"

subsection \<open>Session state\<close>

text \<open>
  The module-level variables of lines 72 to 80 and the windows they refer to.
  \<^item> \<open>mainWindow\<close> is the main \<^verbatim>\<open>BrowserWindow\<close>; it is created at start-up and is taken to
    exist for the whole run.
  \<^item> \<open>warningWindow\<close> is \<open>None\<close> for \<^verbatim>\<open>null\<close> and \<open>Some w\<close> for a reference to the warning
    window \<open>w\<close>. The warning windows that are open on the screen are \<open>surfaces\<close>, each
    with the issue it displays; \<open>w\<close> is destroyed when it is not among them.
    \<^verbatim>\<open>new BrowserWindow\<close> opens window \<open>nextWindow\<close>; \<^verbatim>\<open>close()\<close> removes the window from
    the screen at once, and the \<^verbatim>\<open>closed\<close> event of the window is emitted later, as an
    event of its own. \<open>closedEmitted\<close> lists the windows whose \<^verbatim>\<open>closed\<close> event has been
    emitted: a window emits it once.
  \<^item> \<open>monitoringInterval\<close> and \<open>resolveCheckInterval\<close> are \<open>True\<close> when the variable holds a
    running interval timer and \<open>False\<close> when it is \<^verbatim>\<open>null\<close>; \<open>startTimeout\<close> is the pending
    \<^verbatim>\<open>setTimeout\<close> of line 290.
  \<^item> \<open>trace\<close> is the log of probe calls.
  The variables \<^verbatim>\<open>allowQuit\<close>, \<^verbatim>\<open>updateStatus\<close> and \<^verbatim>\<open>powerSaveId\<close> play no part in the
  handlers below and are left out.
\<close>

datatype page = File string | Url string

datatype top_level = NotOnTop | Floating | ScreenSaver

record main_window =
  closable :: bool
  minimizable :: bool
  maximizable :: bool
  movable :: bool
  resizable :: bool
  simpleFullScreen :: bool
  fullScreen :: bool
  kiosk :: bool
  alwaysOnTop :: top_level
  page :: page

record session =
  mainWindow :: main_window
  warningWindow :: "nat option"
  monitoringInterval :: bool
  resolveCheckInterval :: bool
  isShowingWarning :: bool
  sessionTerminated :: bool
  proctorStarted :: bool
  startTimeout :: bool
  surfaces :: "(nat \<times> string) list"
  nextWindow :: nat
  closedEmitted :: "nat list"
  trace :: "action list"

text \<open>Lines 20 and 21, with \<^verbatim>\<open>TESTING_MODE = false\<close>.\<close>

definition GAME_URL :: string where
  "GAME_URL = ''https://www.chess.com''"

text \<open>The state after \<^verbatim>\<open>createWindow\<close> (lines 168 to 187) and the initialisers of lines 72 to 80.\<close>

definition initial_session :: session where
  "initial_session =
     \<lparr>mainWindow =
        \<lparr>closable = True, minimizable = False, maximizable = False, movable = True,
         resizable = True, simpleFullScreen = False, fullScreen = False, kiosk = False,
         alwaysOnTop = NotOnTop, page = File ''start.html''\<rparr>,
      warningWindow = None,
      monitoringInterval = False,
      resolveCheckInterval = False,
      isShowingWarning = False,
      sessionTerminated = False,
      proctorStarted = False,
      startTimeout = False,
      surfaces = [],
      nextWindow = 0,
      closedEmitted = [],
      trace = []\<rparr>"

text \<open>\<^verbatim>\<open>w.isDestroyed()\<close>\<close>

definition isDestroyed :: "nat \<Rightarrow> session \<Rightarrow> bool" where
  "isDestroyed w s = (w \<notin> set (map fst (surfaces s)))"

text \<open>\<^verbatim>\<open>warningWindow && !warningWindow.isDestroyed()\<close>\<close>

definition warning_window_live :: "session \<Rightarrow> bool" where
  "warning_window_live s =
     (case warningWindow s of None \<Rightarrow> False | Some w \<Rightarrow> \<not> isDestroyed w s)"

text \<open>\<^verbatim>\<open>w.close()\<close>\<close>

definition close_window :: "nat \<Rightarrow> session \<Rightarrow> session" where
  "close_window w s = s\<lparr>surfaces := filter (\<lambda>(i, issue). i \<noteq> w) (surfaces s)\<rparr>"

subsection \<open>Handlers\<close>

text \<open>\<^verbatim>\<open>closeWarningWindow\<close> (lines 505 to 522).\<close>

definition closeWarningWindow :: "session \<Rightarrow> session" where
  "closeWarningWindow s =
     (let s1 = (if resolveCheckInterval s then s\<lparr>resolveCheckInterval := False\<rparr> else s);
          s2 = (case warningWindow s1 of
                  None \<Rightarrow> s1
                | Some w \<Rightarrow>
                    if \<not> isDestroyed w s1
                    then (close_window w s1)\<lparr>warningWindow := None\<rparr>
                    else s1)
      in s2\<lparr>isShowingWarning := False\<rparr>)"

text \<open>
  \<^verbatim>\<open>showWarningWindow\<close> (lines 434 to 503); the callback it registers with \<^verbatim>\<open>setInterval\<close>
  is \<open>resolve_tick\<close> below.
\<close>

definition showWarningWindow :: "string \<Rightarrow> session \<Rightarrow> session" where
  "showWarningWindow issue s =
     (if isShowingWarning s \<or> sessionTerminated s then s
      else if warning_window_live s then s
      else
        let s1 = s\<lparr>isShowingWarning := True\<rparr>;
            s2 = (if resolveCheckInterval s1 then s1\<lparr>resolveCheckInterval := False\<rparr> else s1);
            s3 = s2\<lparr>warningWindow := Some (nextWindow s2),
                    surfaces := surfaces s2 @ [(nextWindow s2, issue)],
                    nextWindow := Suc (nextWindow s2)\<rparr>
        in s3\<lparr>resolveCheckInterval := True\<rparr>)"

text \<open>\<^verbatim>\<open>terminateChessSession\<close> (lines 524 to 559).\<close>

definition terminateChessSession :: "session \<Rightarrow> session" where
  "terminateChessSession s =
     (let s1 = s\<lparr>sessionTerminated := True, isShowingWarning := False\<rparr>;
          s2 = (if monitoringInterval s1 then s1\<lparr>monitoringInterval := False\<rparr> else s1);
          s3 = (if resolveCheckInterval s2 then s2\<lparr>resolveCheckInterval := False\<rparr> else s2);
          s4 = (case warningWindow s3 of
                  None \<Rightarrow> s3
                | Some w \<Rightarrow>
                    if \<not> isDestroyed w s3
                    then (close_window w s3)\<lparr>warningWindow := None\<rparr>
                    else s3);
          s5 = s4\<lparr>mainWindow := (mainWindow s4)
                    \<lparr>kiosk := False, simpleFullScreen := False, fullScreen := False,
                     alwaysOnTop := Floating\<rparr>\<rparr>
      in s5\<lparr>mainWindow := (mainWindow s5)\<lparr>page := File ''terminated.html''\<rparr>\<rparr>)"

text \<open>The callback of the monitoring interval (lines 400 to 431).\<close>

definition monitor_tick :: "os \<Rightarrow> session \<Rightarrow> session" where
  "monitor_tick sys s =
     (if sessionTerminated s \<or> isShowingWarning s then s
      else
        (case monitor_probes sys of
           (tr, Inl e) \<Rightarrow> s\<lparr>trace := trace s @ tr\<rparr>
         | (tr, Inr (displayResult, zoomResult, bluetoothResult, usbResult)) \<Rightarrow>
             let s1 = s\<lparr>trace := trace s @ tr @ [Evaluated]\<rparr> in
             (case issueMessage displayResult zoomResult bluetoothResult usbResult of
                Some message \<Rightarrow> showWarningWindow message s1
              | None \<Rightarrow> s1)))"

text \<open>The callback of the resolve-check interval (lines 480 to 502).\<close>

definition resolve_tick :: "os \<Rightarrow> session \<Rightarrow> session" where
  "resolve_tick sys s =
     (if \<not> isShowingWarning s \<or> sessionTerminated s
      then s\<lparr>resolveCheckInterval := False\<rparr>
      else
        (case resolve_probes sys of
           (tr, Inl e) \<Rightarrow> s\<lparr>trace := trace s @ tr\<rparr>
         | (tr, Inr (displayResult, zoomResult, bluetoothResult, usbResult)) \<Rightarrow>
             let s1 = s\<lparr>trace := trace s @ tr @ [Evaluated]\<rparr> in
             if resolve_clear displayResult zoomResult bluetoothResult usbResult
             then closeWarningWindow s1
             else s1))"

text \<open>The handler of \<^verbatim>\<open>warning-timer-expired\<close> (lines 308 to 329).\<close>

definition warning_timer_expired :: "os \<Rightarrow> session \<Rightarrow> session" where
  "warning_timer_expired sys s =
     (case expired_probes sys of
        (tr, Inl e) \<Rightarrow> s\<lparr>trace := trace s @ tr\<rparr>
      | (tr, Inr (displayResult, zoomResult, bluetoothResult, usbResult)) \<Rightarrow>
          let s1 = s\<lparr>trace := trace s @ tr @ [Evaluated]\<rparr> in
          if expired_violation displayResult zoomResult bluetoothResult usbResult
          then terminateChessSession s1
          else closeWarningWindow s1)"

text \<open>\<^verbatim>\<open>startActiveMonitoring\<close> (lines 397 to 432).\<close>

definition startActiveMonitoring :: "session \<Rightarrow> session" where
  "startActiveMonitoring s = s\<lparr>monitoringInterval := True\<rparr>"

text \<open>The handler of \<^verbatim>\<open>start-proctor\<close> (lines 272 to 305).\<close>

definition start_proctor :: "session \<Rightarrow> session" where
  "start_proctor s =
     (if \<not> proctorStarted s
      then
        let s1 = s\<lparr>proctorStarted := True\<rparr>;
            s2 = s1\<lparr>mainWindow := (mainWindow s1)
                    \<lparr>closable := False, minimizable := False, maximizable := False,
                     movable := False, resizable := False,
                     simpleFullScreen := True, alwaysOnTop := ScreenSaver\<rparr>\<rparr>;
            s3 = s2\<lparr>startTimeout := True\<rparr>
        in s3\<lparr>mainWindow := (mainWindow s3)\<lparr>page := Url GAME_URL\<rparr>\<rparr>
      else s)"

text \<open>The callback of the \<^verbatim>\<open>setTimeout\<close> of lines 290 to 298.\<close>

definition start_timeout :: "session \<Rightarrow> session" where
  "start_timeout s =
     startActiveMonitoring
       (s\<lparr>mainWindow := (mainWindow s)\<lparr>kiosk := False, closable := False\<rparr>\<rparr>)"

text \<open>
  The handler of \<^verbatim>\<open>end-proctor\<close> (lines 339 to 368), up to the \<^verbatim>\<open>setTimeout\<close> whose
  callback quits the application.
\<close>

definition end_proctor :: "session \<Rightarrow> session" where
  "end_proctor s =
     (let s1 = (if monitoringInterval s then s\<lparr>monitoringInterval := False\<rparr> else s);
          s2 = (case warningWindow s1 of
                  None \<Rightarrow> s1
                | Some w \<Rightarrow>
                    if \<not> isDestroyed w s1
                    then (close_window w s1)\<lparr>warningWindow := None\<rparr>
                    else s1)
      in s2\<lparr>mainWindow := (mainWindow s2)
              \<lparr>kiosk := False, simpleFullScreen := False, alwaysOnTop := NotOnTop,
               fullScreen := False, closable := True\<rparr>\<rparr>)"

text \<open>
  The listener every warning window is given for its \<^verbatim>\<open>closed\<close> event (lines 475 to
  477): \<^verbatim>\<open>warningWindow = null\<close>, whichever window emitted the event and whatever the
  variable refers to by then.
\<close>

definition warning_window_closed :: "session \<Rightarrow> session" where
  "warning_window_closed s = s\<lparr>warningWindow := None\<rparr>"

subsection \<open>Runs\<close>

text \<open>
  The events the main process reacts to. A timer callback runs only while its timer is
  set. \<open>WarningWindowClosed w\<close> is the \<^verbatim>\<open>closed\<close> event of warning window \<open>w\<close>: it occurs
  for a window that was created and has not emitted it yet, either after a handler has
  called \<^verbatim>\<open>close()\<close> on it or when the window goes away by itself; the window is then
  off the screen and its listener runs. A handler is taken to run from its first
  statement to its last on one state;
  what a handler does after its \<^verbatim>\<open>await\<close>s is a call of \<^verbatim>\<open>showWarningWindow\<close>,
  \<^verbatim>\<open>closeWarningWindow\<close> or \<^verbatim>\<open>terminateChessSession\<close>, and each of these is also an event
  of its own, so that a handler resumed after other handlers have run is a run as well.
\<close>

datatype event =
    StartRequested
  | StartTimeout
  | MonitorTick os
  | ResolveTick os
  | WarningTimerExpired os
  | WarningWindowClosed nat
  | ShowWarning string
  | CloseWarning
  | Terminate
  | EndRequested

definition step :: "event \<Rightarrow> session \<Rightarrow> session" where
  "step e s =
     (case e of
        StartRequested \<Rightarrow> start_proctor s
      | StartTimeout \<Rightarrow>
          (if startTimeout s then start_timeout (s\<lparr>startTimeout := False\<rparr>) else s)
      | MonitorTick sys \<Rightarrow> (if monitoringInterval s then monitor_tick sys s else s)
      | ResolveTick sys \<Rightarrow> (if resolveCheckInterval s then resolve_tick sys s else s)
      | WarningTimerExpired sys \<Rightarrow> warning_timer_expired sys s
      | WarningWindowClosed w \<Rightarrow>
          (if w < nextWindow s \<and> w \<notin> set (closedEmitted s)
           then warning_window_closed
                  ((close_window w s)\<lparr>closedEmitted := w # closedEmitted s\<rparr>)
           else s)
      | ShowWarning issue \<Rightarrow> showWarningWindow issue s
      | CloseWarning \<Rightarrow> closeWarningWindow s
      | Terminate \<Rightarrow> terminateChessSession s
      | EndRequested \<Rightarrow> end_proctor s)"

fun run :: "event list \<Rightarrow> session \<Rightarrow> session" where
  "run [] s = s"
| "run (e # es) s = run es (step e s)"

text \<open>
  The four states of the specification, read off the three flags: \<open>Terminated\<close> once
  \<open>sessionTerminated\<close> is set, otherwise \<open>Idle\<close> until the start was requested, otherwise
  \<open>Warning\<close> while \<open>isShowingWarning\<close> is set and \<open>Active\<close> when it is not.
\<close>

datatype session_state = Idle | Active | Warning | Terminated

definition spec_state_of :: "session \<Rightarrow> session_state" where
  "spec_state_of s =
     (if sessionTerminated s then Terminated
      else if \<not> proctorStarted s then Idle
      else if isShowingWarning s then Warning
      else Active)"

subsection \<open>The violation evaluator as the specification words it\<close>

text \<open>
  Section 4.2 of the specification: five kinds of violation, one rule per kind, and the
  fixed priority in which the first true rule gives the headline.
\<close>

datatype violation =
  MultiDisplay | ConferenceAppNotRunning | CameraInactive | RadioEnabled | PeripheralAttached

fun spec_holds :: "violation \<Rightarrow> nat \<Rightarrow> bool \<Rightarrow> bool \<Rightarrow> bool \<Rightarrow> int \<Rightarrow> bool" where
  "spec_holds MultiDisplay displayCount running cameraActive enabled cnt = (displayCount > 1)"
| "spec_holds ConferenceAppNotRunning displayCount running cameraActive enabled cnt = (\<not> running)"
| "spec_holds CameraInactive displayCount running cameraActive enabled cnt =
     (running \<and> \<not> cameraActive)"
| "spec_holds RadioEnabled displayCount running cameraActive enabled cnt = enabled"
| "spec_holds PeripheralAttached displayCount running cameraActive enabled cnt = (cnt > 0)"

definition spec_priority :: "violation list" where
  "spec_priority =
     [MultiDisplay, ConferenceAppNotRunning, CameraInactive, RadioEnabled, PeripheralAttached]"

definition spec_first_violation :: "nat \<Rightarrow> bool \<Rightarrow> bool \<Rightarrow> bool \<Rightarrow> int \<Rightarrow> violation option" where
  "spec_first_violation displayCount running cameraActive enabled cnt =
     find (\<lambda>k. spec_holds k displayCount running cameraActive enabled cnt) spec_priority"

text \<open>The message the monitor callback shows for each kind (lines 416 to 426).\<close>

fun headline :: "violation \<Rightarrow> string" where
  "headline MultiDisplay = ''External display detected''"
| "headline ConferenceAppNotRunning = ''Zoom is not running''"
| "headline CameraInactive = ''Camera has been turned off''"
| "headline RadioEnabled = ''Bluetooth must be disabled''"
| "headline PeripheralAttached = ''Disconnect all USB devices''"

subsection \<open>The radio rule as the specification words it\<close>

text \<open>
  Section 4.1: the radio is on only if the value of the matched \<^verbatim>\<open>State:\<close> or
  \<^verbatim>\<open>Power:\<close> line contains \<^verbatim>\<open>on\<close>, ignoring case. The value of a line is what follows
  its first colon.
\<close>

definition spec_line_value :: "string \<Rightarrow> string" where
  "spec_line_value line = drop 1 (dropWhile (\<lambda>c. c \<noteq> CHR '':'') line)"

definition spec_value_contains_on :: "string \<Rightarrow> bool" where
  "spec_value_contains_on line = includes_str (toLowerCase (spec_line_value line)) ''on''"

subsection \<open>Concurrent invocation as the specification words it\<close>

text \<open>
  Sections 4.1 and 5: the probes of a tick are all issued before any of them is awaited.
  In a log this says that no probe is called or issued after the first \<open>Awaited\<close>.
\<close>

fun is_awaited :: "action \<Rightarrow> bool" where
  "is_awaited (Awaited p) = True"
| "is_awaited a = False"

fun starts_probe :: "action \<Rightarrow> bool" where
  "starts_probe (Called p) = True"
| "starts_probe (Issued p) = True"
| "starts_probe a = False"

definition spec_issued_before_awaited :: "action list \<Rightarrow> bool" where
  "spec_issued_before_awaited tr =
     list_all (\<lambda>a. \<not> starts_probe a) (dropWhile (\<lambda>a. \<not> is_awaited a) tr)"

subsection \<open>Concrete environments\<close>

text \<open>One display and every command failing.\<close>

fun unavailable :: "command \<Rightarrow> error + string" where
  "unavailable c = Inl CommandFailed"

definition os_unavailable :: os where
  "os_unavailable = \<lparr>displays = 1, execAsync = unavailable\<rparr>"

text \<open>
  One display, the conferencing application running with its camera streaming, the radio
  off and no device on the bus.
\<close>

fun compliant :: "command \<Rightarrow> error + string" where
  "compliant PgrepZoom = Inr ''4312\<newline>''"
| "compliant IoregCamera = Inr ''    |   \"CameraStreaming\" = Yes\<newline>''"
| "compliant PgrepShare = Inr ''\<newline>''"
| "compliant LsofZoom = Inr ''\<newline>''"
| "compliant ProfilerBluetooth = Inr ''          State: Off\<newline>''"
| "compliant ProfilerUsb = Inr []"

definition os_compliant :: os where
  "os_compliant = \<lparr>displays = 1, execAsync = compliant\<rparr>"

text \<open>The same with a second display attached.\<close>

definition os_two_displays :: os where
  "os_two_displays = \<lparr>displays = 2, execAsync = compliant\<rparr>"

text \<open>A device list with a built-in keyboard and a storage device.\<close>

definition usb_two_devices :: string where
  "usb_two_devices =
     ''USB:\<newline>\<newline>    Apple Internal Keyboard:\<newline>\<newline>      Product ID: 0x027e\<newline>      Vendor ID: 0x05ac\<newline>\<newline>    SanDisk USB Drive:\<newline>\<newline>      Product ID: 0x5567\<newline>      Vendor ID: 0x0781\<newline>''"

fun with_usb_drive :: "command \<Rightarrow> error + string" where
  "with_usb_drive ProfilerUsb = Inr usb_two_devices"
| "with_usb_drive c = compliant c"

definition os_usb_drive :: os where
  "os_usb_drive = \<lparr>displays = 1, execAsync = with_usb_drive\<rparr>"

text \<open>A radio line whose value contains \<^verbatim>\<open>on\<close> without starting with it.\<close>

fun radio_connected :: "command \<Rightarrow> error + string" where
  "radio_connected ProfilerBluetooth = Inr ''          State: Connected\<newline>''"
| "radio_connected c = compliant c"

definition os_radio_connected :: os where
  "os_radio_connected = \<lparr>displays = 1, execAsync = radio_connected\<rparr>"

text \<open>The radio switched on.\<close>

fun radio_on :: "command \<Rightarrow> error + string" where
  "radio_on ProfilerBluetooth = Inr ''          State: On\<newline>''"
| "radio_on c = compliant c"

definition os_radio_on :: os where
  "os_radio_on = \<lparr>displays = 1, execAsync = radio_on\<rparr>"

text \<open>
  The conferencing application running while the camera registry and the screen-sharing
  lookups fail.
\<close>

fun lookups_fail :: "command \<Rightarrow> error + string" where
  "lookups_fail IoregCamera = Inl CommandFailed"
| "lookups_fail PgrepShare = Inl CommandFailed"
| "lookups_fail c = compliant c"

definition os_lookups_fail :: os where
  "os_lookups_fail = \<lparr>displays = 1, execAsync = lookups_fail\<rparr>"

subsection \<open>Concrete sessions\<close>

text \<open>A started session, the same with a warning open, and the same after termination.\<close>

definition active_example :: session where
  "active_example = run [StartRequested, StartTimeout] initial_session"

definition warning_example :: session where
  "warning_example = run [MonitorTick os_unavailable] active_example"

definition terminated_example :: session where
  "terminated_example = run [WarningTimerExpired os_unavailable] warning_example"

definition example_events :: "event list" where
  "example_events =
     [StartRequested, MonitorTick os_two_displays, ResolveTick os_compliant,
      WarningTimerExpired os_compliant, ShowWarning ''Zoom is not running'']"

text \<open>
  A run of a started session in which the \<^verbatim>\<open>closed\<close> event of the first warning window
  arrives only after the second warning window has been opened: a warning is raised and
  resolved, a second warning is raised, the first window's \<^verbatim>\<open>closed\<close> event arrives, the
  second warning is resolved, and a violation is found again.
\<close>

definition late_closed_events :: "event list" where
  "late_closed_events =
     [StartRequested, StartTimeout,
      MonitorTick os_unavailable, ResolveTick os_compliant,
      MonitorTick os_unavailable, WarningWindowClosed 0, ResolveTick os_compliant,
      MonitorTick os_unavailable]"

subsection \<open>Auxiliary notions\<close>

text \<open>The log of one pass through the four probe statements of a handler.\<close>

definition sequential_log :: "action list" where
  "sequential_log =
     [Called Display, Issued Zoom, Awaited Zoom, Issued Bluetooth, Awaited Bluetooth,
      Issued Usb, Awaited Usb]"

section \<open>Properties of the string functions and of the probes\<close>

lemma startsWith_iff: "startsWith s p \<longleftrightarrow> (\<exists>suf. s = p @ suf)"
  by (induction s p rule: startsWith.induct) auto

lemma includes_str_iff: "includes_str s p \<longleftrightarrow> (\<exists>pre suf. s = pre @ p @ suf)"
proof (induction s)
  case Nil
  then show ?case by auto
next
  case (Cons c cs)
  show ?case
  proof
    assume "includes_str (c # cs) p"
    then consider "startsWith (c # cs) p" | "includes_str cs p" by auto
    then show "\<exists>pre suf. c # cs = pre @ p @ suf"
    proof cases
      case 1
      then obtain suf where "c # cs = p @ suf" by (auto simp: startsWith_iff)
      then have "c # cs = [] @ p @ suf" by simp
      then show ?thesis by blast
    next
      case 2
      then obtain pre suf where "cs = pre @ p @ suf" using Cons.IH by auto
      then have "c # cs = (c # pre) @ p @ suf" by simp
      then show ?thesis by blast
    qed
  next
    assume "\<exists>pre suf. c # cs = pre @ p @ suf"
    then obtain pre suf where eq: "c # cs = pre @ p @ suf" by blast
    show "includes_str (c # cs) p"
    proof (cases pre)
      case Nil
      then have "startsWith (c # cs) p" using eq by (auto simp: startsWith_iff)
      then show ?thesis by simp
    next
      case (Cons a pre')
      then have "cs = pre' @ p @ suf" using eq by simp
      then have "includes_str cs p" using Cons.IH by blast
      then show ?thesis by simp
    qed
  qed
qed

lemma checkZoomCamera_returns: "\<exists>z. checkZoomCamera sys = Inr z"
  by (auto simp: checkZoomCamera_def try_catch_def and_then_def Let_def split: sum.splits)

lemma checkBluetooth_eq:
  "checkBluetooth sys =
     Inr \<lparr>bluetoothEnabled =
            (case execAsync sys ProfilerBluetooth of
               Inl e \<Rightarrow> False
             | Inr stdout \<Rightarrow> includes_str (toLowerCase stdout) '': on'')\<rparr>"
  by (simp add: checkBluetooth_def try_catch_def and_then_def Let_def split: sum.splits)

text \<open>
  The loop with the check of the last device: whatever the flag and the counter it is
  entered with, both are accounted for, and every device line is counted once.
\<close>

lemma usb_loop_total:
  "(case usb_loop lines n e of (c, f) \<Rightarrow> if f then c + 1 else c) =
     n + (if e then 1 else 0)
       + int (length (filter is_external_name (filter is_device_name_line lines)))"
  by (induction lines arbitrary: n e) auto

lemma count_external_eq:
  "count_external lines =
     int (length (filter is_external_name (filter is_device_name_line lines)))"
  using usb_loop_total [of lines 0 False] by (simp add: count_external_def)

lemma getUsbDeviceCount_eq:
  "getUsbDeviceCount sys =
     Inr (case execAsync sys ProfilerUsb of
            Inl e \<Rightarrow> 0
          | Inr stdout \<Rightarrow>
              if stdout = [] \<or> trim stdout = [] \<or> includes_str stdout ''No USB'' then 0
              else int (length (filter is_external_name
                     (filter is_device_name_line (split_str stdout (CHR 0x0A))))))"
  by (simp add: getUsbDeviceCount_def try_catch_def and_then_def count_external_eq
      split: sum.splits)

lemma getUsbDeviceCount_returns: "\<exists>n. getUsbDeviceCount sys = Inr n \<and> 0 \<le> n"
  by (simp add: getUsbDeviceCount_eq split: sum.splits)

lemma checkUsbDevices_returns:
  "\<exists>u. checkUsbDevices sys = Inr u \<and> hasUsbDevices u = (count u > 0) \<and> 0 \<le> count u"
  using getUsbDeviceCount_returns [of sys] by (auto simp: checkUsbDevices_def and_then_def)

lemma checkUsbDevices_flag:
  "checkUsbDevices sys = Inr u \<Longrightarrow> hasUsbDevices u = (count u > 0)"
  using checkUsbDevices_returns [of sys] by auto

lemma monitor_probes_eq:
  assumes "checkZoomCamera sys = Inr z" "checkBluetooth sys = Inr b" "checkUsbDevices sys = Inr u"
  shows "monitor_probes sys = (sequential_log, Inr (displays sys, z, b, u))"
  using assms
  by (simp add: monitor_probes_def then_async_def call_sync_def await_def done_async_def
      sequential_log_def)

lemma resolve_probes_eq:
  assumes "checkZoomCamera sys = Inr z" "checkBluetooth sys = Inr b" "checkUsbDevices sys = Inr u"
  shows "resolve_probes sys = (sequential_log, Inr (displays sys, z, b, u))"
  using assms
  by (simp add: resolve_probes_def then_async_def call_sync_def await_def done_async_def
      sequential_log_def)

lemma expired_probes_eq:
  assumes "checkZoomCamera sys = Inr z" "checkBluetooth sys = Inr b" "checkUsbDevices sys = Inr u"
  shows "expired_probes sys = (sequential_log, Inr (displays sys, z, b, u))"
  using assms
  by (simp add: expired_probes_def then_async_def call_sync_def await_def done_async_def
      sequential_log_def)

section \<open>Properties of the handlers\<close>

lemmas handler_defs =
  showWarningWindow_def closeWarningWindow_def terminateChessSession_def monitor_tick_def
  resolve_tick_def warning_timer_expired_def start_proctor_def start_timeout_def
  startActiveMonitoring_def end_proctor_def warning_window_closed_def close_window_def

lemma step_sessionTerminated: "sessionTerminated s \<Longrightarrow> sessionTerminated (step e s)"
  by (cases e)
     (auto simp: step_def handler_defs Let_def split: prod.splits sum.splits option.splits)

lemma step_proctorStarted: "proctorStarted s \<Longrightarrow> proctorStarted (step e s)"
  by (cases e)
     (auto simp: step_def handler_defs Let_def split: prod.splits sum.splits option.splits)

lemma step_not_showing:
  "sessionTerminated s \<Longrightarrow> isShowingWarning (step e s) \<Longrightarrow> isShowingWarning s"
  by (cases e)
     (auto simp: step_def handler_defs Let_def split: prod.splits sum.splits option.splits if_splits)

lemma step_surfaces:
  "sessionTerminated s \<Longrightarrow> set (surfaces (step e s)) \<subseteq> set (surfaces s)"
  by (cases e)
     (auto simp: step_def handler_defs Let_def split: prod.splits sum.splits option.splits if_splits)

lemma run_terminated:
  "sessionTerminated s \<Longrightarrow>
     sessionTerminated (run evs s) \<and> (isShowingWarning (run evs s) \<longrightarrow> isShowingWarning s) \<and>
     set (surfaces (run evs s)) \<subseteq> set (surfaces s)"
proof (induction evs arbitrary: s)
  case Nil
  then show ?case by simp
next
  case (Cons e evs)
  have t: "sessionTerminated (step e s)" using Cons.prems by (rule step_sessionTerminated)
  from Cons.IH [OF t] step_not_showing [OF Cons.prems] step_surfaces [OF Cons.prems]
  show ?case by auto
qed

lemma run_proctorStarted: "proctorStarted s \<Longrightarrow> proctorStarted (run evs s)"
  by (induction evs arbitrary: s) (auto simp: step_proctorStarted)

lemma monitor_tick_noop:
  "sessionTerminated s \<or> isShowingWarning s \<Longrightarrow> monitor_tick sys s = s"
  by (simp add: monitor_tick_def)

lemma start_proctor_noop: "proctorStarted s \<Longrightarrow> start_proctor s = s"
  by (simp add: start_proctor_def)

section \<open>The claims\<close>

text \<open>
  C1, as stated: once \<open>sessionTerminated\<close> is set, a start request is rejected without
  any change of state. This fails in the state reached when \<^verbatim>\<open>warning-timer-expired\<close>
  arrives before any start request while a violation is present: the handler of lines
  308 to 329 has no guard and terminates the session, \<open>proctorStarted\<close> is still false,
  and the guard of line 273 lets the start request through.
\<close>

theorem start_after_termination_counterexample:
  "sessionTerminated (step (WarningTimerExpired os_unavailable) initial_session) \<and>
   step StartRequested (step (WarningTimerExpired os_unavailable) initial_session)
     \<noteq> step (WarningTimerExpired os_unavailable) initial_session"
  by code_simp

text \<open>
  C1, amended: once \<open>sessionTerminated\<close> is set, no sequence of events (start request,
  start time-out, monitor tick, resolve tick, warning timer expired, warning window
  closed, show warning, close warning, terminate, end request) clears it; the session
  stays \<open>Terminated\<close>, no warning is raised and no warning window is opened, every monitor
  tick is without effect, and a start request is rejected without any change of state
  whenever the start had been requested before, as it has in every session that was
  started before it was terminated.
\<close>

theorem terminated_is_final:
  assumes "sessionTerminated s"
  shows "sessionTerminated (run evs s) \<and>
         spec_state_of (run evs s) = Terminated \<and>
         (isShowingWarning (run evs s) \<longrightarrow> isShowingWarning s) \<and>
         set (surfaces (run evs s)) \<subseteq> set (surfaces s) \<and>
         monitor_tick sys (run evs s) = run evs s \<and>
         (proctorStarted s \<longrightarrow> step StartRequested (run evs s) = run evs s)"
proof -
  have t: "sessionTerminated (run evs s)" using run_terminated [OF assms] by blast
  have "proctorStarted s \<longrightarrow> step StartRequested (run evs s) = run evs s"
    by (simp add: step_def start_proctor_noop run_proctorStarted)
  with t run_terminated [OF assms, of evs] monitor_tick_noop [of "run evs s" sys]
  show ?thesis by (simp add: spec_state_of_def)
qed

theorem terminated_is_final_witness:
  "sessionTerminated terminated_example \<and> proctorStarted terminated_example \<and>
   sessionTerminated (run example_events terminated_example) \<and>
   spec_state_of (run example_events terminated_example) = Terminated \<and>
   monitor_tick os_two_displays (run example_events terminated_example)
     = run example_events terminated_example \<and>
   step StartRequested (run example_events terminated_example)
     = run example_events terminated_example"
proof -
  have h: "sessionTerminated terminated_example" by code_simp
  have p: "proctorStarted terminated_example" by code_simp
  from terminated_is_final [OF h, of example_events os_two_displays] h p
  show ?thesis by blast
qed

text \<open>
  C10: for the same four probe results, the monitor callback, the resolve callback and
  the \<^verbatim>\<open>warning-timer-expired\<close> handler compute the same four issue flags, and so
  they agree on whether there is a violation: the monitor callback raises a warning
  exactly when the handler would terminate and exactly when the resolve callback would
  not close the warning.
\<close>

theorem evaluation_sites_agree:
  "monitor_issues d z b u = resolve_issues d z b u \<and>
   resolve_issues d z b u = expired_issues d z b u \<and>
   (issueMessage d z b u \<noteq> None) = expired_violation d z b u \<and>
   expired_violation d z b u = (\<not> resolve_clear d z b u)"
  by (simp add: monitor_issues_def resolve_issues_def expired_issues_def issueMessage_def
      expired_violation_def resolve_clear_def Let_def)

theorem evaluation_sites_agree_witness:
  "monitor_issues 1 \<lparr>zoomRunning = True, cameraInUse = False, screenSharing = False\<rparr>
     \<lparr>bluetoothEnabled = False\<rparr> \<lparr>hasUsbDevices = False, count = 0\<rparr> =
     \<lparr>hasDisplayIssue = False, hasCameraIssue = True, hasBluetoothIssue = False,
      hasUsbIssue = False\<rparr> \<and>
   resolve_issues 1 \<lparr>zoomRunning = True, cameraInUse = False, screenSharing = False\<rparr>
     \<lparr>bluetoothEnabled = False\<rparr> \<lparr>hasUsbDevices = False, count = 0\<rparr> =
     \<lparr>hasDisplayIssue = False, hasCameraIssue = True, hasBluetoothIssue = False,
      hasUsbIssue = False\<rparr> \<and>
   expired_issues 1 \<lparr>zoomRunning = True, cameraInUse = False, screenSharing = False\<rparr>
     \<lparr>bluetoothEnabled = False\<rparr> \<lparr>hasUsbDevices = False, count = 0\<rparr> =
     \<lparr>hasDisplayIssue = False, hasCameraIssue = True, hasBluetoothIssue = False,
      hasUsbIssue = False\<rparr> \<and>
   issueMessage 1 \<lparr>zoomRunning = True, cameraInUse = False, screenSharing = False\<rparr>
     \<lparr>bluetoothEnabled = False\<rparr> \<lparr>hasUsbDevices = False, count = 0\<rparr> =
     Some ''Camera has been turned off'' \<and>
   expired_violation 1 \<lparr>zoomRunning = True, cameraInUse = False, screenSharing = False\<rparr>
     \<lparr>bluetoothEnabled = False\<rparr> \<lparr>hasUsbDevices = False, count = 0\<rparr> \<and>
   \<not> resolve_clear 1 \<lparr>zoomRunning = True, cameraInUse = False, screenSharing = False\<rparr>
     \<lparr>bluetoothEnabled = False\<rparr> \<lparr>hasUsbDevices = False, count = 0\<rparr>"
proof -
  have m: "monitor_issues 1 \<lparr>zoomRunning = True, cameraInUse = False, screenSharing = False\<rparr>
     \<lparr>bluetoothEnabled = False\<rparr> \<lparr>hasUsbDevices = False, count = 0\<rparr> =
     \<lparr>hasDisplayIssue = False, hasCameraIssue = True, hasBluetoothIssue = False,
      hasUsbIssue = False\<rparr>"
    by (simp add: monitor_issues_def)
  have i: "issueMessage 1 \<lparr>zoomRunning = True, cameraInUse = False, screenSharing = False\<rparr>
     \<lparr>bluetoothEnabled = False\<rparr> \<lparr>hasUsbDevices = False, count = 0\<rparr> =
     Some ''Camera has been turned off''"
    by code_simp
  from evaluation_sites_agree [of 1
      "\<lparr>zoomRunning = True, cameraInUse = False, screenSharing = False\<rparr>"
      "\<lparr>bluetoothEnabled = False\<rparr>" "\<lparr>hasUsbDevices = False, count = 0\<rparr>"] m i
  show ?thesis by auto
qed

lemma issueMessage_first_violation:
  "issueMessage d z b \<lparr>hasUsbDevices = (c > 0), count = c\<rparr> =
     map_option headline (spec_first_violation d (zoomRunning z) (cameraInUse z) (bluetoothEnabled b) c)"
  by (simp add: issueMessage_def monitor_issues_def spec_first_violation_def spec_priority_def Let_def)

lemma first_violation_None:
  "(spec_first_violation d r ca e c = None) = (\<not> d > 1 \<and> r \<and> ca \<and> \<not> e \<and> \<not> c > 0)"
  by (auto simp: spec_first_violation_def spec_priority_def)

lemma usb_result_eq:
  "checkUsbDevices sys = Inr u \<Longrightarrow> u = \<lparr>hasUsbDevices = (count u > 0), count = count u\<rparr>"
  using checkUsbDevices_flag [of sys u] by simp

lemma monitor_tick_surfaces:
  assumes "\<not> sessionTerminated s" "\<not> isShowingWarning s" "\<not> warning_window_live s"
    and z: "checkZoomCamera sys = Inr z" and b: "checkBluetooth sys = Inr b"
    and u: "checkUsbDevices sys = Inr u"
  shows "surfaces (monitor_tick sys s) =
           surfaces s @
             (case spec_first_violation (displays sys) (zoomRunning z) (cameraInUse z)
                     (bluetoothEnabled b) (count u) of
                None \<Rightarrow> []
              | Some k \<Rightarrow> [(nextWindow s, headline k)])"
proof -
  have m: "issueMessage (displays sys) z b u =
       map_option headline (spec_first_violation (displays sys) (zoomRunning z) (cameraInUse z)
         (bluetoothEnabled b) (count u))"
    using issueMessage_first_violation [of "displays sys" z b "count u"] usb_result_eq [OF u]
    by simp
  show ?thesis
    using assms(1-3)
    by (simp add: monitor_tick_def monitor_probes_eq [OF z b u] m showWarningWindow_def
        warning_window_live_def isDestroyed_def Let_def split: option.splits)
qed

text \<open>
  C2: for every display count, conferencing result, radio result and peripheral count,
  the message chosen by the monitor callback is the headline of the first rule that holds
  in the order MultiDisplay, ConferenceAppNotRunning, CameraInactive, RadioEnabled,
  PeripheralAttached, and there is none exactly when no rule holds; a monitor tick of a
  session without warning opens a warning with that message, and opens none when no rule
  holds.
\<close>

theorem headline_is_first_violation:
  "issueMessage d z b \<lparr>hasUsbDevices = (c > 0), count = c\<rparr> =
     map_option headline
       (spec_first_violation d (zoomRunning z) (cameraInUse z) (bluetoothEnabled b) c) \<and>
   (spec_first_violation d (zoomRunning z) (cameraInUse z) (bluetoothEnabled b) c = None) =
     (\<not> d > 1 \<and> zoomRunning z \<and> cameraInUse z \<and> \<not> bluetoothEnabled b \<and> \<not> c > 0) \<and>
   (\<not> sessionTerminated s \<and> \<not> isShowingWarning s \<and> \<not> warning_window_live s \<and>
    checkZoomCamera sys = Inr z \<and> checkBluetooth sys = Inr b \<and> checkUsbDevices sys = Inr u \<longrightarrow>
      surfaces (monitor_tick sys s) =
        surfaces s @
          (case spec_first_violation (displays sys) (zoomRunning z) (cameraInUse z)
                  (bluetoothEnabled b) (count u) of
             None \<Rightarrow> []
           | Some k \<Rightarrow> [(nextWindow s, headline k)]))"
  using issueMessage_first_violation [of d z b c]
    first_violation_None [of d "zoomRunning z" "cameraInUse z" "bluetoothEnabled b" c]
    monitor_tick_surfaces [of s sys z b u]
  by blast

theorem headline_is_first_violation_witness:
  "\<not> sessionTerminated active_example \<and> \<not> isShowingWarning active_example \<and>
   \<not> warning_window_live active_example \<and>
   checkZoomCamera os_two_displays =
     Inr \<lparr>zoomRunning = True, cameraInUse = True, screenSharing = False\<rparr> \<and>
   checkBluetooth os_two_displays = Inr \<lparr>bluetoothEnabled = False\<rparr> \<and>
   checkUsbDevices os_two_displays = Inr \<lparr>hasUsbDevices = False, count = 0\<rparr> \<and>
   surfaces (monitor_tick os_two_displays active_example) = [(0, ''External display detected'')]"
proof -
  have h: "\<not> sessionTerminated active_example" "\<not> isShowingWarning active_example"
      "\<not> warning_window_live active_example"
    by code_simp+
  have z: "checkZoomCamera os_two_displays =
      Inr \<lparr>zoomRunning = True, cameraInUse = True, screenSharing = False\<rparr>"
    by code_simp
  have b: "checkBluetooth os_two_displays = Inr \<lparr>bluetoothEnabled = False\<rparr>" by code_simp
  have u: "checkUsbDevices os_two_displays = Inr \<lparr>hasUsbDevices = False, count = 0\<rparr>"
    by code_simp
  have s: "surfaces active_example = []" "nextWindow active_example = 0" by code_simp+
  have d: "displays os_two_displays = 2" by code_simp
  have f: "spec_first_violation 2 True True False 0 = Some MultiDisplay" by code_simp
  from headline_is_first_violation [of 0 "\<lparr>zoomRunning = True, cameraInUse = True, screenSharing = False\<rparr>"
      "\<lparr>bluetoothEnabled = False\<rparr>" 0 active_example os_two_displays
      "\<lparr>hasUsbDevices = False, count = 0\<rparr>"] h z b u
  have "surfaces (monitor_tick os_two_displays active_example) =
        surfaces active_example @
          (case spec_first_violation (displays os_two_displays) True True False 0 of
             None \<Rightarrow> []
           | Some k \<Rightarrow> [(nextWindow active_example, headline k)])"
    by simp
  then have "surfaces (monitor_tick os_two_displays active_example) = [(0, ''External display detected'')]"
    by (simp add: s d f)
  with h z b u show ?thesis by simp
qed

text \<open>
  C4: \<^verbatim>\<open>showWarningWindow\<close> changes nothing when a warning is showing, when the session is
  terminated or when a warning window is live; otherwise it sets \<open>isShowingWarning\<close>,
  opens one warning window and starts the resolve check. Calling it a second time
  changes nothing.
\<close>

theorem showWarningWindow_idempotent:
  "(isShowingWarning s \<or> sessionTerminated s \<or> warning_window_live s \<longrightarrow>
      showWarningWindow issue s = s) \<and>
   (\<not> isShowingWarning s \<and> \<not> sessionTerminated s \<and> \<not> warning_window_live s \<longrightarrow>
      isShowingWarning (showWarningWindow issue s) \<and>
      warningWindow (showWarningWindow issue s) = Some (nextWindow s) \<and>
      surfaces (showWarningWindow issue s) = surfaces s @ [(nextWindow s, issue)] \<and>
      resolveCheckInterval (showWarningWindow issue s)) \<and>
   showWarningWindow issue' (showWarningWindow issue s) = showWarningWindow issue s"
  by (simp add: showWarningWindow_def Let_def)

theorem showWarningWindow_idempotent_witness:
  "isShowingWarning warning_example \<and>
   showWarningWindow ''Bluetooth must be disabled'' warning_example = warning_example \<and>
   \<not> isShowingWarning active_example \<and> \<not> sessionTerminated active_example \<and>
   \<not> warning_window_live active_example \<and>
   isShowingWarning (showWarningWindow ''Bluetooth must be disabled'' active_example) \<and>
   surfaces (showWarningWindow ''Bluetooth must be disabled'' active_example)
     = surfaces active_example @ [(nextWindow active_example, ''Bluetooth must be disabled'')]"
proof -
  have w: "isShowingWarning warning_example" by code_simp
  have a: "\<not> isShowingWarning active_example" "\<not> sessionTerminated active_example"
     "\<not> warning_window_live active_example" by code_simp+
  from showWarningWindow_idempotent [of warning_example "''Bluetooth must be disabled''"] w
    showWarningWindow_idempotent [of active_example "''Bluetooth must be disabled''"] a
  show ?thesis by blast
qed








lemma probes_return:
  "\<exists>z b u. checkZoomCamera sys = Inr z \<and> checkBluetooth sys = Inr b \<and>
     checkUsbDevices sys = Inr u"
  using checkZoomCamera_returns [of sys] checkUsbDevices_returns [of sys]
  by (auto simp: checkBluetooth_eq)

lemma site_probes_return:
  "(\<exists>r. monitor_probes sys = (sequential_log, Inr r)) \<and>
   (\<exists>r. resolve_probes sys = (sequential_log, Inr r)) \<and>
   (\<exists>r. expired_probes sys = (sequential_log, Inr r))"
proof -
  obtain z b u where "checkZoomCamera sys = Inr z" "checkBluetooth sys = Inr b"
      "checkUsbDevices sys = Inr u"
    using probes_return by blast
  then show ?thesis
    by (simp add: monitor_probes_eq resolve_probes_eq expired_probes_eq)
qed

lemma checkZoomCamera_failures:
  "(execAsync sys PgrepZoom = Inl e \<longrightarrow>
      checkZoomCamera sys =
        Inr \<lparr>zoomRunning = False, cameraInUse = False, screenSharing = False\<rparr>) \<and>
   (execAsync sys IoregCamera = Inl e \<longrightarrow>
      (\<exists>z. checkZoomCamera sys = Inr z \<and> \<not> cameraInUse z)) \<and>
   (execAsync sys PgrepShare = Inl e \<longrightarrow>
      (\<exists>z. checkZoomCamera sys = Inr z \<and> \<not> screenSharing z))"
  by (auto simp: checkZoomCamera_def try_catch_def and_then_def Let_def split: sum.splits)

text \<open>
  C5: whatever the commands do, each probe returns a result and throws nothing:
  \<^verbatim>\<open>checkZoomCamera\<close> returns three booleans, \<^verbatim>\<open>checkBluetooth\<close> one boolean,
  \<^verbatim>\<open>getUsbDeviceCount\<close> an integer that is not negative, and the probe statements of the
  three handlers run to their end. When the process lookup fails the three booleans are
  false; when the camera or the screen-sharing lookup fails, that flag is false; when
  the radio query fails the radio counts as disabled; when the device query fails the
  count is 0.
\<close>

theorem probes_never_throw:
  "(\<exists>z. checkZoomCamera sys = Inr z) \<and>
   (\<exists>b. checkBluetooth sys = Inr b) \<and>
   (\<exists>n. getUsbDeviceCount sys = Inr n \<and> 0 \<le> n) \<and>
   (\<exists>u. checkUsbDevices sys = Inr u \<and> 0 \<le> count u) \<and>
   (\<exists>r. monitor_probes sys = (sequential_log, Inr r)) \<and>
   (\<exists>r. resolve_probes sys = (sequential_log, Inr r)) \<and>
   (\<exists>r. expired_probes sys = (sequential_log, Inr r)) \<and>
   (execAsync sys PgrepZoom = Inl e \<longrightarrow>
      checkZoomCamera sys =
        Inr \<lparr>zoomRunning = False, cameraInUse = False, screenSharing = False\<rparr>) \<and>
   (execAsync sys IoregCamera = Inl e \<longrightarrow>
      (\<exists>z. checkZoomCamera sys = Inr z \<and> \<not> cameraInUse z)) \<and>
   (execAsync sys PgrepShare = Inl e \<longrightarrow>
      (\<exists>z. checkZoomCamera sys = Inr z \<and> \<not> screenSharing z)) \<and>
   (execAsync sys ProfilerBluetooth = Inl e \<longrightarrow>
      checkBluetooth sys = Inr \<lparr>bluetoothEnabled = False\<rparr>) \<and>
   (execAsync sys ProfilerUsb = Inl e \<longrightarrow> getUsbDeviceCount sys = Inr 0)"
proof -
  have bt: "execAsync sys ProfilerBluetooth = Inl e \<longrightarrow>
      checkBluetooth sys = Inr \<lparr>bluetoothEnabled = False\<rparr>"
    by (simp add: checkBluetooth_eq)
  have usb: "execAsync sys ProfilerUsb = Inl e \<longrightarrow> getUsbDeviceCount sys = Inr 0"
    by (simp add: getUsbDeviceCount_eq)
  have b: "\<exists>b. checkBluetooth sys = Inr b" by (simp add: checkBluetooth_eq)
  have u: "\<exists>u. checkUsbDevices sys = Inr u \<and> 0 \<le> count u"
    using checkUsbDevices_returns [of sys] by blast
  from checkZoomCamera_returns [of sys] b getUsbDeviceCount_returns [of sys] u
    site_probes_return [of sys] checkZoomCamera_failures [of sys e] bt usb
  show ?thesis by blast
qed

theorem probes_never_throw_witness:
  "execAsync os_unavailable PgrepZoom = Inl CommandFailed \<and>
   execAsync os_unavailable ProfilerBluetooth = Inl CommandFailed \<and>
   execAsync os_unavailable ProfilerUsb = Inl CommandFailed \<and>
   checkZoomCamera os_unavailable =
     Inr \<lparr>zoomRunning = False, cameraInUse = False, screenSharing = False\<rparr> \<and>
   checkBluetooth os_unavailable = Inr \<lparr>bluetoothEnabled = False\<rparr> \<and>
   getUsbDeviceCount os_unavailable = Inr 0 \<and>
   execAsync os_lookups_fail IoregCamera = Inl CommandFailed \<and>
   execAsync os_lookups_fail PgrepShare = Inl CommandFailed \<and>
   (\<exists>z. checkZoomCamera os_lookups_fail = Inr z \<and> \<not> cameraInUse z) \<and>
   (\<exists>z. checkZoomCamera os_lookups_fail = Inr z \<and> \<not> screenSharing z)"
proof -
  have h: "execAsync os_unavailable PgrepZoom = Inl CommandFailed"
      "execAsync os_unavailable ProfilerBluetooth = Inl CommandFailed"
      "execAsync os_unavailable ProfilerUsb = Inl CommandFailed"
    by (simp_all add: os_unavailable_def)
  have k: "execAsync os_lookups_fail IoregCamera = Inl CommandFailed"
      "execAsync os_lookups_fail PgrepShare = Inl CommandFailed"
    by (simp_all add: os_lookups_fail_def)
  from probes_never_throw [of os_unavailable CommandFailed] h
    probes_never_throw [of os_lookups_fail CommandFailed] k
  show ?thesis by blast
qed

lemma count_external_last:
  "count_external (lines @ [line]) =
     count_external lines + (if is_device_name_line line \<and> is_external_name line then 1 else 0)"
  by (simp add: count_external_eq)

text \<open>
  C6: \<^verbatim>\<open>getUsbDeviceCount\<close> returns 0 when the command fails, when its output is empty or
  blank and when it contains \<^verbatim>\<open>No USB\<close>; otherwise it returns the number of device-name
  lines (four spaces, then a letter) whose trimmed, lower-cased text contains none of the
  internal patterns. A device-name line at the very end of the output is counted like
  any other. For the device list with \<^verbatim>\<open>Apple Internal Keyboard\<close> and
  \<^verbatim>\<open>SanDisk USB Drive\<close> the count is 1: the first is internal, the second is not.
\<close>

theorem getUsbDeviceCount_counts_external:
  "getUsbDeviceCount sys =
     Inr (case execAsync sys ProfilerUsb of
            Inl e \<Rightarrow> 0
          | Inr stdout \<Rightarrow>
              if stdout = [] \<or> trim stdout = [] \<or> includes_str stdout ''No USB'' then 0
              else int (length (filter is_external_name
                     (filter is_device_name_line (split_str stdout (CHR 0x0A)))))) \<and>
   count_external (lines @ [line]) =
     count_external lines + (if is_device_name_line line \<and> is_external_name line then 1 else 0) \<and>
   filter is_device_name_line (split_str usb_two_devices (CHR 0x0A)) =
     [''    Apple Internal Keyboard:'', ''    SanDisk USB Drive:''] \<and>
   \<not> is_external_name ''    Apple Internal Keyboard:'' \<and>
   is_external_name ''    SanDisk USB Drive:'' \<and>
   getUsbDeviceCount os_usb_drive = Inr 1"
proof -
  have 1: "filter is_device_name_line (split_str usb_two_devices (CHR 0x0A)) =
     [''    Apple Internal Keyboard:'', ''    SanDisk USB Drive:'']" by code_simp
  have 2: "\<not> is_external_name ''    Apple Internal Keyboard:''" by code_simp
  have 3: "is_external_name ''    SanDisk USB Drive:''" by code_simp
  have 4: "getUsbDeviceCount os_usb_drive = Inr 1" by code_simp
  from getUsbDeviceCount_eq [of sys] count_external_last [of lines line] 1 2 3 4
  show ?thesis by blast
qed

text \<open>
  C7, as stated: the radio counts as enabled exactly when the value of the matched line
  contains \<^verbatim>\<open>on\<close>, ignoring case. For the line \<^verbatim>\<open>State: Connected\<close> the value contains
  \<^verbatim>\<open>on\<close>, and \<^verbatim>\<open>checkBluetooth\<close> reports the radio as not enabled.
\<close>

theorem radio_value_counterexample:
  "spec_value_contains_on ''          State: Connected\<newline>'' \<and>
   execAsync os_radio_connected ProfilerBluetooth = Inr ''          State: Connected\<newline>'' \<and>
   checkBluetooth os_radio_connected = Inr \<lparr>bluetoothEnabled = False\<rparr>"
  by code_simp

text \<open>
  C7, amended: \<^verbatim>\<open>checkBluetooth\<close> reports the radio as enabled exactly when the command
  succeeds and its lower-cased output contains \<^verbatim>\<open>: on\<close>, that is, \<^verbatim>\<open>on\<close> directly after
  a colon and a space.
\<close>

theorem radio_enabled_iff:
  "checkBluetooth sys =
     Inr \<lparr>bluetoothEnabled =
            (\<exists>stdout pre suf. execAsync sys ProfilerBluetooth = Inr stdout \<and>
               toLowerCase stdout = pre @ '': on'' @ suf)\<rparr>"
  by (cases "execAsync sys ProfilerBluetooth") (simp_all add: checkBluetooth_eq includes_str_iff)

text \<open>
  C8: while a warning is showing or the session is terminated, a firing of the monitor
  callback returns at line 401 and changes nothing (lemma \<open>monitor_tick_noop\<close>). The
  conclusion that two warning windows are never open at once does not follow. In the run
  \<open>late_closed_events\<close> the listener of lines 475 to 477 sets \<open>warningWindow\<close> to \<^verbatim>\<open>null\<close>
  when the \<^verbatim>\<open>closed\<close> event of window 0 arrives, although the variable refers to window
  1 by then. After the first six events window 1 is on the screen, a warning is showing
  and \<open>warningWindow\<close> is \<^verbatim>\<open>null\<close>; \<^verbatim>\<open>closeWarningWindow\<close> then clears \<open>isShowingWarning\<close>
  without closing window 1, and the next monitor tick opens window 2 beside it.
\<close>

theorem late_closed_event_two_surfaces:
  "surfaces (run (take 5 late_closed_events) initial_session) = [(1, ''Zoom is not running'')] \<and>
   warningWindow (run (take 5 late_closed_events) initial_session) = Some 1 \<and>
   surfaces (run (take 6 late_closed_events) initial_session) = [(1, ''Zoom is not running'')] \<and>
   warningWindow (run (take 6 late_closed_events) initial_session) = None \<and>
   isShowingWarning (run (take 6 late_closed_events) initial_session) \<and>
   surfaces (run (take 7 late_closed_events) initial_session) = [(1, ''Zoom is not running'')] \<and>
   isShowingWarning (run (take 7 late_closed_events) initial_session) = False \<and>
   surfaces (run late_closed_events initial_session) =
     [(1, ''Zoom is not running''), (2, ''Zoom is not running'')] \<and>
   length (surfaces (run late_closed_events initial_session)) = 2"
  by code_simp

text \<open>
  C9, as stated: in every tick the four probes are all issued before any of them is
  awaited. In the log of the probe statements of each of the three handlers the
  conferencing probe is awaited before the radio probe is issued.
\<close>

theorem concurrent_probes_counterexample:
  "fst (monitor_probes os_compliant) =
     [Called Display, Issued Zoom, Awaited Zoom, Issued Bluetooth, Awaited Bluetooth,
      Issued Usb, Awaited Usb] \<and>
   \<not> spec_issued_before_awaited (fst (monitor_probes os_compliant)) \<and>
   \<not> spec_issued_before_awaited (fst (resolve_probes os_compliant)) \<and>
   \<not> spec_issued_before_awaited (fst (expired_probes os_compliant))"
  by code_simp

lemma site_logs:
  "fst (monitor_probes sys) = sequential_log \<and> fst (resolve_probes sys) = sequential_log \<and>
   fst (expired_probes sys) = sequential_log"
  using site_probes_return [of sys] by auto

lemma trace_showWarningWindow: "trace (showWarningWindow issue s) = trace s"
  by (simp add: showWarningWindow_def Let_def)

lemma trace_closeWarningWindow: "trace (closeWarningWindow s) = trace s"
  by (simp add: closeWarningWindow_def close_window_def Let_def split: option.splits)

lemma trace_terminateChessSession: "trace (terminateChessSession s) = trace s"
  by (simp add: terminateChessSession_def close_window_def Let_def split: option.splits)

lemma handler_traces:
  "(\<not> sessionTerminated s \<and> \<not> isShowingWarning s \<longrightarrow>
      trace (monitor_tick sys s) = trace s @ sequential_log @ [Evaluated]) \<and>
   (isShowingWarning s \<and> \<not> sessionTerminated s \<longrightarrow>
      trace (resolve_tick sys s) = trace s @ sequential_log @ [Evaluated]) \<and>
   trace (warning_timer_expired sys s) = trace s @ sequential_log @ [Evaluated]"
proof -
  obtain z b u where p: "checkZoomCamera sys = Inr z" "checkBluetooth sys = Inr b"
      "checkUsbDevices sys = Inr u"
    using probes_return by blast
  show ?thesis
    by (simp add: monitor_tick_def resolve_tick_def warning_timer_expired_def
        monitor_probes_eq [OF p] resolve_probes_eq [OF p] expired_probes_eq [OF p]
        trace_showWarningWindow trace_closeWarningWindow trace_terminateChessSession Let_def
        split: option.splits)
qed

text \<open>
  C9, amended: in the monitor callback, the resolve callback and the
  \<^verbatim>\<open>warning-timer-expired\<close> handler the four probes run one after the other, in the order
  display, conferencing application, radio, peripherals: each asynchronous probe is
  awaited before the next one is issued, and the handler evaluates only after the last
  one has been awaited.
\<close>

theorem probes_run_in_sequence:
  "sequential_log =
     [Called Display, Issued Zoom, Awaited Zoom, Issued Bluetooth, Awaited Bluetooth,
      Issued Usb, Awaited Usb] \<and>
   fst (monitor_probes sys) = sequential_log \<and>
   fst (resolve_probes sys) = sequential_log \<and>
   fst (expired_probes sys) = sequential_log \<and>
   (\<not> sessionTerminated s \<and> \<not> isShowingWarning s \<longrightarrow>
      trace (monitor_tick sys s) = trace s @ sequential_log @ [Evaluated]) \<and>
   (isShowingWarning s \<and> \<not> sessionTerminated s \<longrightarrow>
      trace (resolve_tick sys s) = trace s @ sequential_log @ [Evaluated]) \<and>
   trace (warning_timer_expired sys s) = trace s @ sequential_log @ [Evaluated]"
  using site_logs [of sys] handler_traces [of s sys] sequential_log_def by blast

theorem probes_run_in_sequence_witness:
  "\<not> sessionTerminated active_example \<and> \<not> isShowingWarning active_example \<and>
   trace (monitor_tick os_two_displays active_example) =
     [Called Display, Issued Zoom, Awaited Zoom, Issued Bluetooth, Awaited Bluetooth,
      Issued Usb, Awaited Usb, Evaluated] \<and>
   isShowingWarning warning_example \<and> \<not> sessionTerminated warning_example \<and>
   trace (resolve_tick os_compliant warning_example) =
     trace warning_example @
     [Called Display, Issued Zoom, Awaited Zoom, Issued Bluetooth, Awaited Bluetooth,
      Issued Usb, Awaited Usb, Evaluated]"
proof -
  have a: "\<not> sessionTerminated active_example" "\<not> isShowingWarning active_example"
      "trace active_example = []"
    by code_simp+
  have w: "isShowingWarning warning_example" "\<not> sessionTerminated warning_example"
    by code_simp+
  from probes_run_in_sequence [of os_two_displays active_example]
    probes_run_in_sequence [of os_compliant warning_example] a w
  show ?thesis by simp
qed

end
